theory Spec2Isabelle
  imports Complex_Main "HOL-Library.Sublist"
begin

section \<open>Python values\<close>

text \<open>
  The step stores whatever its callers hand it: \<open>decodeSettingsJSONDict\<close> and the setters
  do no conversion, so a field can hold a bool, an int, a float or a list. The values are
  therefore a datatype of their own. A Python float is a \<open>real\<close> here: rounding, infinities
  and NaN are outside the model.
\<close>

datatype pyval =
    PyNone
  | PyBool bool
  | PyInt int
  | PyFloat real
  | PyStr string
  | PyList "pyval list"

datatype error =
    AssertionError string
  | KeyError string
  | TypeError string
  | ZeroDivisionError

text \<open>The number a bool, int or float stands for in a comparison (\<open>True == 1 == 1.0\<close>).\<close>

fun py_num :: "pyval \<Rightarrow> real option" where
  "py_num (PyBool b) = Some (if b then 1 else 0)"
| "py_num (PyInt i) = Some (of_int i)"
| "py_num (PyFloat r) = Some r"
| "py_num PyNone = None"
| "py_num (PyStr s) = None"
| "py_num (PyList xs) = None"

text \<open>
  Python's \<open>==\<close>: numbers compare by value across bool, int and float, strings by their
  characters, lists element by element and only when their lengths agree.
\<close>

fun py_eq :: "pyval \<Rightarrow> pyval \<Rightarrow> bool"
  and py_eq_list :: "pyval list \<Rightarrow> pyval list \<Rightarrow> bool" where
  "py_eq PyNone b = (b = PyNone)"
| "py_eq (PyStr s) b = (case b of PyStr t \<Rightarrow> s = t | _ \<Rightarrow> False)"
| "py_eq (PyList xs) b = (case b of PyList ys \<Rightarrow> py_eq_list xs ys | _ \<Rightarrow> False)"
| "py_eq (PyBool x) b = (py_num b = Some (if x then 1 else 0))"
| "py_eq (PyInt i) b = (py_num b = Some (of_int i))"
| "py_eq (PyFloat r) b = (py_num b = Some r)"
| "py_eq_list [] ys = (ys = [])"
| "py_eq_list (x # xs) ys = (case ys of [] \<Rightarrow> False | y # ys' \<Rightarrow> py_eq x y \<and> py_eq_list xs ys')"

definition py_ne :: "pyval \<Rightarrow> pyval \<Rightarrow> bool" where
  "py_ne a b = (\<not> py_eq a b)"

text \<open>\<open>len(x)\<close>: defined on lists and strings, a \<open>TypeError\<close> on everything else.\<close>

fun py_len :: "pyval \<Rightarrow> error + nat" where
  "py_len (PyList xs) = Inr (length xs)"
| "py_len (PyStr s) = Inr (length s)"
| "py_len v = Inl (TypeError ''object has no len()'')"

text \<open>Truth value of an object, as \<open>if x:\<close> tests it.\<close>

fun py_truthy :: "pyval \<Rightarrow> bool" where
  "py_truthy PyNone = False"
| "py_truthy (PyBool b) = b"
| "py_truthy (PyInt i) = (i \<noteq> 0)"
| "py_truthy (PyFloat r) = (r \<noteq> 0)"
| "py_truthy (PyStr s) = (s \<noteq> [])"
| "py_truthy (PyList xs) = (xs \<noteq> [])"

text \<open>\<open>isinstance(x, float)\<close>: bool and int are not floats.\<close>

fun isinstance_float :: "pyval \<Rightarrow> bool" where
  "isinstance_float (PyFloat r) = True"
| "isinstance_float v = False"

definition pyfloats :: "real list \<Rightarrow> pyval" where
  "pyfloats xs = PyList (map PyFloat xs)"

section \<open>The step's settings\<close>

text \<open>
  \<open>FitterStepAlign.__init__\<close>: the four settings, and the \<open>hasRun\<close> flag of the base
  class \<open>FitterStep\<close>.
\<close>

record FitterStepAlign =
  alignMarkers :: pyval
  rotation :: pyval
  scale :: pyval
  translation :: pyval
  hasRun :: bool

definition init :: FitterStepAlign where
  "init = \<lparr> alignMarkers = PyBool False,
            rotation = pyfloats [0, 0, 0],
            scale = PyFloat 1,
            translation = pyfloats [0, 0, 0],
            hasRun = False \<rparr>"

definition jsonTypeId :: string where
  "jsonTypeId = ''_FitterStepAlign''"

subsection \<open>Setters\<close>

text \<open>
  Each setter returns the flag and the step after the call. The two list setters assert the
  length first, so they can raise; \<open>copy.copy\<close> of a value is the value.
\<close>

definition setAlignMarkers :: "pyval \<Rightarrow> FitterStepAlign \<Rightarrow> bool \<times> FitterStepAlign" where
  "setAlignMarkers v s =
     (if py_ne v (alignMarkers s) then (True, s\<lparr>alignMarkers := v\<rparr>) else (False, s))"

definition setRotation :: "pyval \<Rightarrow> FitterStepAlign \<Rightarrow> error + (bool \<times> FitterStepAlign)" where
  "setRotation v s =
     (case py_len v of
        Inl e \<Rightarrow> Inl e
      | Inr n \<Rightarrow>
          if n \<noteq> 3 then Inl (AssertionError ''FitterStepAlign:  Invalid rotation'')
          else if py_ne v (rotation s) then Inr (True, s\<lparr>rotation := v\<rparr>)
          else Inr (False, s))"

definition setScale :: "pyval \<Rightarrow> FitterStepAlign \<Rightarrow> bool \<times> FitterStepAlign" where
  "setScale v s =
     (if py_ne v (scale s) then (True, s\<lparr>scale := v\<rparr>) else (False, s))"

definition setTranslation :: "pyval \<Rightarrow> FitterStepAlign \<Rightarrow> error + (bool \<times> FitterStepAlign)" where
  "setTranslation v s =
     (case py_len v of
        Inl e \<Rightarrow> Inl e
      | Inr n \<Rightarrow>
          if n \<noteq> 3 then Inl (AssertionError ''FitterStepAlign:  Invalid translation'')
          else if py_ne v (translation s) then Inr (True, s\<lparr>translation := v\<rparr>)
          else Inr (False, s))"

subsection \<open>Settings as a JSON dict\<close>

text \<open>
  A dict is an association list in insertion order; \<open>k in d\<close> and \<open>d[k]\<close> are \<open>map_of\<close>.
  The encoder is a dict literal with five distinct keys.
\<close>

type_synonym pydict = "(string \<times> pyval) list"

definition encodeSettingsJSONDict :: "FitterStepAlign \<Rightarrow> pydict" where
  "encodeSettingsJSONDict s =
     [(jsonTypeId, PyBool True),
      (''alignMarkers'', alignMarkers s),
      (''rotation'', rotation s),
      (''scale'', scale s),
      (''translation'', translation s)]"

text \<open>
  The decoder asserts the type tag, then assigns the four fields one after the other. A
  missing key raises \<open>KeyError\<close> at its own line, after the assignments above it have
  happened: the step is returned in both cases.
\<close>

definition decodeSettingsJSONDict ::
    "pydict \<Rightarrow> FitterStepAlign \<Rightarrow> error option \<times> FitterStepAlign" where
  "decodeSettingsJSONDict dct s =
     (if map_of dct jsonTypeId = None then (Some (AssertionError []), s)
      else case map_of dct ''alignMarkers'' of
        None \<Rightarrow> (Some (KeyError ''alignMarkers''), s)
      | Some a \<Rightarrow>
         (let s1 = s\<lparr>alignMarkers := a\<rparr> in
          case map_of dct ''rotation'' of
            None \<Rightarrow> (Some (KeyError ''rotation''), s1)
          | Some r \<Rightarrow>
             (let s2 = s1\<lparr>rotation := r\<rparr> in
              case map_of dct ''scale'' of
                None \<Rightarrow> (Some (KeyError ''scale''), s2)
              | Some c \<Rightarrow>
                 (let s3 = s2\<lparr>scale := c\<rparr> in
                  case map_of dct ''translation'' of
                    None \<Rightarrow> (Some (KeyError ''translation''), s3)
                  | Some t \<Rightarrow> (None, s3\<lparr>translation := t\<rparr>)))))"

section \<open>Fields and their arithmetic\<close>

text \<open>
  A Zinc field is seen through its values: the number of components and the vector of
  values at each node, in node order. A constant field is its vector of values.
\<close>

record Field =
  numberOfComponents :: nat
  nodeValues :: "real list list"

text \<open>
  \<open>createFieldConstant(values)\<close> takes a number or a list of numbers; the binding turns
  bools and ints into doubles and rejects anything else. Its conversion of an int reports
  no error: an int too large for a double, one that rounds to \<open>2 ^ 1024\<close> or beyond in
  magnitude, comes out as \<open>-1.0\<close>.
\<close>

definition int_as_double :: "int \<Rightarrow> real" where
  "int_as_double i = (if \<bar>i\<bar> < 2 ^ 1024 - 2 ^ 970 then of_int i else - 1)"

fun py_double :: "pyval \<Rightarrow> real option" where
  "py_double (PyBool b) = Some (if b then 1 else 0)"
| "py_double (PyInt i) = Some (int_as_double i)"
| "py_double (PyFloat r) = Some r"
| "py_double PyNone = None"
| "py_double (PyStr s) = None"
| "py_double (PyList xs) = None"

fun py_reals :: "pyval list \<Rightarrow> real list option" where
  "py_reals [] = Some []"
| "py_reals (v # vs) =
     (case py_double v of
        None \<Rightarrow> None
      | Some x \<Rightarrow> (case py_reals vs of None \<Rightarrow> None | Some xs \<Rightarrow> Some (x # xs)))"

definition createFieldConstant :: "pyval \<Rightarrow> error + real list" where
  "createFieldConstant v =
     (case v of
        PyList vs \<Rightarrow>
          (case py_reals vs of
             None \<Rightarrow> Inl (TypeError ''createFieldConstant'')
           | Some xs \<Rightarrow> Inr xs)
      | _ \<Rightarrow>
          (case py_double v of
             None \<Rightarrow> Inl (TypeError ''createFieldConstant'')
           | Some x \<Rightarrow> Inr [x]))"

text \<open>
  \<open>createFieldMatrixMultiply(n, M, v)\<close>: \<open>M\<close> has \<open>n\<close> rows, stored row by row, and
  \<open>v\<close> is a column vector.
\<close>

definition createFieldMatrixMultiply :: "nat \<Rightarrow> real list \<Rightarrow> real list \<Rightarrow> real list" where
  "createFieldMatrixMultiply n M v =
     map (\<lambda>i. sum_list (map (\<lambda>j. M ! (i * length v + j) * v ! j) [0..<length v])) [0..<n]"

text \<open>
  The field operators \<open>*\<close> and \<open>+\<close> work component by component; a one-component
  factor multiplies every component of the other field.
\<close>

definition field_multiply :: "real list \<Rightarrow> real list \<Rightarrow> real list" where
  "field_multiply u v =
     (if length v = 1 then map (\<lambda>x. x * hd v) u
      else if length u = 1 then map (\<lambda>y. hd u * y) v
      else map2 (*) u v)"

definition field_add :: "real list \<Rightarrow> real list \<Rightarrow> real list" where
  "field_add u v = map2 (+) u v"

subsection \<open>The rotation matrix of three Euler angles\<close>

definition rotate_about_z :: "real \<Rightarrow> real list" where
  "rotate_about_z a = [cos a, - sin a, 0,
                       sin a, cos a, 0,
                       0, 0, 1]"

definition rotate_about_y :: "real \<Rightarrow> real list" where
  "rotate_about_y a = [cos a, 0, sin a,
                       0, 1, 0,
                       - sin a, 0, cos a]"

definition rotate_about_x :: "real \<Rightarrow> real list" where
  "rotate_about_x a = [1, 0, 0,
                       0, cos a, - sin a,
                       0, sin a, cos a]"

definition matrix3_product :: "real list \<Rightarrow> real list \<Rightarrow> real list" where
  "matrix3_product A B =
     map (\<lambda>k. sum_list (map (\<lambda>l. A ! (3 * (k div 3) + l) * B ! (3 * l + k mod 3)) [0..<3]))
       [0..<9]"

text \<open>
  Modelled from the spec: \<open>create_field_euler_angles_rotation_matrix\<close> is imported from
  \<open>opencmiss.utils.zinc.field\<close> and its body is not among the sources. The spec and the
  docstring of \<open>setRotation\<close> give the sequence: first about the z-axis by angle 0 (azimuth),
  then about the rotated y-axis by angle 1 (elevation), then about the rotated x-axis by
  angle 2 (roll). Rotations about the axes of the moving frame compose on the right, so the
  matrix that pre-multiplies a column vector is \<open>Rz(angle 0) Ry(angle 1) Rx(angle 2)\<close>,
  stored row by row.
\<close>

definition create_field_euler_angles_rotation_matrix :: "real list \<Rightarrow> real list" where
  "create_field_euler_angles_rotation_matrix euler_angles =
     matrix3_product (rotate_about_z (euler_angles ! 0))
       (matrix3_product (rotate_about_y (euler_angles ! 1)) (rotate_about_x (euler_angles ! 2)))"

subsection \<open>createFieldsTransformations\<close>

definition invalid_arguments :: error where
  "invalid_arguments = AssertionError ''createFieldsTransformations.  Invalid arguments''"

text \<open>
  The assertion is an \<open>and\<close> chain, evaluated left to right: a \<open>len\<close> that raises does so
  before the conjuncts after it are looked at. The result is the transformed coordinates
  and the three constant fields. The final \<open>isValid\<close> assertion is on a field built from
  valid fields and is taken to hold.
\<close>

definition createFieldsTransformations ::
    "Field \<Rightarrow> pyval \<Rightarrow> pyval \<Rightarrow> pyval \<Rightarrow> real \<Rightarrow>
     error + (Field \<times> real list \<times> real list \<times> real list)" where
  "createFieldsTransformations coordinates rotation_angles0 scale_value translation_offsets0
       translation_scale_factor =
     (let rotation_angles =
            (if rotation_angles0 = PyNone then pyfloats [0, 0, 0] else rotation_angles0);
          translation_offsets =
            (if translation_offsets0 = PyNone then pyfloats [0, 0, 0] else translation_offsets0);
          components_count = numberOfComponents coordinates
      in
      if components_count \<noteq> 3 then Inl invalid_arguments
      else case py_len rotation_angles of
        Inl e \<Rightarrow> Inl e
      | Inr n \<Rightarrow>
         if n \<noteq> components_count \<or> \<not> isinstance_float scale_value then Inl invalid_arguments
         else case py_len translation_offsets of
           Inl e \<Rightarrow> Inl e
         | Inr m \<Rightarrow>
            if m \<noteq> components_count then Inl invalid_arguments
            else case createFieldConstant rotation_angles of
              Inl e \<Rightarrow> Inl e
            | Inr rotation_field \<Rightarrow>
               (case createFieldConstant scale_value of
                  Inl e \<Rightarrow> Inl e
                | Inr scale_field \<Rightarrow>
                   (case createFieldConstant translation_offsets of
                      Inl e \<Rightarrow> Inl e
                    | Inr translation_field \<Rightarrow>
                       (let rotation_matrix = create_field_euler_angles_rotation_matrix rotation_field;
                            rotated_coordinates =
                              map (createFieldMatrixMultiply components_count rotation_matrix)
                                (nodeValues coordinates);
                            offset =
                              (if translation_scale_factor = 1 then translation_field
                               else field_multiply translation_field
                                      (replicate components_count translation_scale_factor));
                            transformed_coordinates =
                              map (\<lambda>x. field_add (field_multiply x scale_field) offset)
                                rotated_coordinates
                        in Inr (\<lparr> numberOfComponents = components_count,
                                  nodeValues = transformed_coordinates \<rparr>,
                                rotation_field, scale_field, translation_field)))))"

section \<open>Marker names\<close>

text \<open>
  A marker name is a string of 8-bit characters, each standing for the Unicode code point
  of its number: the names are Latin-1 text. \<open>str.strip\<close> and \<open>str.casefold\<close> are
  built-ins of the language. Among the code points below 256, \<open>isspace\<close> holds of 9 to
  13, 28 to 32, 133 (next line) and 160 (no-break space), and \<open>strip\<close> removes the leading
  and trailing characters of which it holds. Full case folding lowers A to Z and the
  accented capitals 192 to 214 and 216 to 222, sends the sharp s (223) to \<open>ss\<close> and the
  micro sign (181) to the Greek small mu (956), and leaves every other code point below
  256 alone. The micro sign folds out of Latin-1, so a folded name is a list of code
  points.
\<close>

definition isspace :: "char \<Rightarrow> bool" where
  "isspace c =
     (let n = (of_char c :: nat)
      in (9 \<le> n \<and> n \<le> 13) \<or> (28 \<le> n \<and> n \<le> 32) \<or> n = 133 \<or> n = 160)"

definition strip :: "string \<Rightarrow> string" where
  "strip s = rev (dropWhile isspace (rev (dropWhile isspace s)))"

definition casefold_char :: "char \<Rightarrow> nat list" where
  "casefold_char c =
     (let n = (of_char c :: nat)
      in if (65 \<le> n \<and> n \<le> 90) \<or> (192 \<le> n \<and> n \<le> 214) \<or> (216 \<le> n \<and> n \<le> 222)
         then [n + 32]
         else if n = 181 then [956]
         else if n = 223 then [115, 115]
         else [n])"

definition casefold :: "string \<Rightarrow> nat list" where
  "casefold s = concat (map casefold_char s)"

text \<open>\<open>str(n)\<close> of a length: its decimal digits.\<close>

fun str :: "nat \<Rightarrow> string" where
  "str n = (if n < 10 then [char_of (48 + n)] else str (n div 10) @ [char_of (48 + n mod 10)])"

declare str.simps [simp del]

definition quoted :: "string \<Rightarrow> string" where
  "quoted name = CHR 0x27 # name @ [CHR 0x27]"

section \<open>Matching model markers to data markers\<close>

text \<open>
  \<open>getNodeNameCentres\<close> returns a dict from marker name to the centre of the nodes of that
  name: an association list with distinct keys, in the dict's enumeration order.
  \<open>markerMap\<close> maps a model marker name to the pair of model and data coordinates.
\<close>

type_synonym markers = "(string \<times> real list) list"

type_synonym markerMap = "(string \<times> real list \<times> real list) list"

text \<open>\<open>d[k] = v\<close> keeps the place of a key that is present and appends a new one.\<close>

fun dict_set :: "('k \<times> 'v) list \<Rightarrow> 'k \<Rightarrow> 'v \<Rightarrow> ('k \<times> 'v) list" where
  "dict_set [] k v = [(k, v)]"
| "dict_set ((k', v') # d) k v = (if k' = k then (k, v) # d else (k', v') # dict_set d k v)"

text \<open>\<open>d.pop(k)\<close>, for a key that is present.\<close>

fun dict_pop :: "('k \<times> 'v) list \<Rightarrow> 'k \<Rightarrow> ('k \<times> 'v) list" where
  "dict_pop [] k = []"
| "dict_pop ((k', v') # d) k = (if k' = k then d else (k', v') # dict_pop d k)"

text \<open>
  The state of the outer loop: the marker map built so far, the data markers still in the
  dict, and the lines printed.
\<close>

type_synonym match_state = "markerMap \<times> markers \<times> string list"

text \<open>
  One pass of the outer loop, for one model marker. The inner loop stops at the first data
  name whose normalised form is the model name's (\<open>break\<close>), or runs to its end (the
  \<open>else\<close> of the \<open>for\<close>). In the source the \<open>pop\<close> stands inside
  \<open>if writeDiagnostics:\<close>, next to the \<open>print\<close>; the model keeps it there.
\<close>

definition match_model_marker ::
    "bool \<Rightarrow> string \<times> real list \<Rightarrow> match_state \<Rightarrow> match_state" where
  "match_model_marker writeDiagnostics model st =
     (case (model, st) of ((modelName, modelx), (markerMap, dataMarkers, out)) \<Rightarrow>
        (let matchName = casefold (strip modelName) in
         case find (\<lambda>(dataName, datax). casefold (strip dataName) = matchName) dataMarkers of
           Some (dataName, datax) \<Rightarrow>
             (dict_set markerMap modelName (modelx, datax),
              (if writeDiagnostics then dict_pop dataMarkers dataName else dataMarkers),
              (if writeDiagnostics
               then out @ [''Align:  Model marker '' @ quoted modelName @ '' found in data'' @
                           (if dataName \<noteq> modelName then '' as '' @ quoted dataName else [])]
               else out))
         | None \<Rightarrow>
             (markerMap, dataMarkers,
              (if writeDiagnostics
               then out @ [''Align:  Model marker '' @ quoted modelName @ '' not found in data'']
               else out))))"

fun match_markers :: "bool \<Rightarrow> markers \<Rightarrow> match_state \<Rightarrow> match_state" where
  "match_markers writeDiagnostics [] st = st"
| "match_markers writeDiagnostics (model # modelMarkers) st =
     match_markers writeDiagnostics modelMarkers (match_model_marker writeDiagnostics model st)"

text \<open>The whole matching block of \<open>_doAlignMarkers\<close>: the marker map and the printed lines.\<close>

definition matchMarkers :: "int \<Rightarrow> markers \<Rightarrow> markers \<Rightarrow> markerMap \<times> string list" where
  "matchMarkers diagnosticLevel modelMarkers dataMarkers =
     (let writeDiagnostics = (diagnosticLevel > 0) in
      case match_markers writeDiagnostics modelMarkers ([], dataMarkers, []) of
        (markerMap, dataMarkers', out) \<Rightarrow>
          (markerMap,
           (if writeDiagnostics
            then out @ map (\<lambda>(dataName, datax).
                              ''Align:  Data marker '' @ quoted dataName @ '' not found in model'')
                         dataMarkers'
            else out)))"

section \<open>The fitter and the optimiser\<close>

text \<open>Result codes of \<open>opencmiss.zinc.result\<close>.\<close>

definition RESULT_OK :: int where
  "RESULT_OK = 1"

definition RESULT_WARNING_PART_DONE :: int where
  "RESULT_WARNING_PART_DONE = 2"

text \<open>
  What the Zinc optimisation gives back for one marker map and data scale: whether the
  marker coordinates could be assigned to the nodes, whether the objective field is valid,
  the result of \<open>optimise\<close>, its solution report, and the three \<open>evaluateReal\<close> results
  with their result codes.
\<close>

record solution =
  assignedOK :: bool
  objectiveValid :: bool
  optimiseResult :: int
  solutionReport :: string
  rotationEvaluated :: "int \<times> real list"
  scaleEvaluated :: "int \<times> real"
  translationEvaluated :: "int \<times> real list"

text \<open>
  The fitter the step belongs to, as far as the step reads it: the model coordinates field
  and the marker group (absent as \<open>None\<close>), the name-to-centre dicts of the model and data
  markers (\<open>None\<close> when a marker group, coordinates or name field is missing), the data
  scale, the diagnostic level, the optimiser, and the result code of assigning a field to
  the model coordinates.
\<close>

record Fitter =
  modelCoordinatesField :: "Field option"
  markerGroup :: "string option"
  modelMarkerCentres :: "markers option"
  dataMarkerCentres :: "markers option"
  dataScale :: real
  diagnosticLevel :: int
  optimise :: "markerMap \<Rightarrow> real \<Rightarrow> solution"
  assign :: "Field \<Rightarrow> int"

text \<open>
  \<open>_optimiseAlignment\<close> returns the error raised, if any, the step as the call leaves it,
  and the lines printed. The three parameters are assigned before the last assertion
  looks at the result codes.
\<close>

definition optimiseAlignment ::
    "Fitter \<Rightarrow> markerMap \<Rightarrow> FitterStepAlign \<Rightarrow> error option \<times> FitterStepAlign \<times> string list"
  where
  "optimiseAlignment fitter markerMap s =
     (if \<not> (length markerMap \<ge> 3)
      then (Some (AssertionError (''Align:  Only '' @ str (length markerMap) @
                                   '' markers - need at least 3'')), s, [])
      else
       (let sol = optimise fitter markerMap (dataScale fitter) in
        if \<not> assignedOK sol
        then (Some (AssertionError
                ''Align:  Failed to set up data for alignment to markers optimisation''), s, [])
        else case createFieldsTransformations
                    \<lparr> numberOfComponents = 3, nodeValues = map (\<lambda>(name, positions). fst positions) markerMap \<rparr>
                    PyNone (PyFloat 1) PyNone (dataScale fitter) of
          Inl e \<Rightarrow> (Some e, s, [])
        | Inr transformation \<Rightarrow>
           if dataScale fitter = 0 then (Some ZeroDivisionError, s, [])
           else if \<not> objectiveValid sol
           then (Some (AssertionError
                   ''Align:  Failed to set up objective function for alignment to markers optimisation''),
                 s, [])
           else
            (let out = (if diagnosticLevel fitter > 1 then [solutionReport sol] else []) in
             if optimiseResult sol \<noteq> RESULT_OK
             then (Some (AssertionError ''Align:  Alignment to markers optimisation failed''),
                   s, out)
             else
              (let s' = s\<lparr> rotation := pyfloats (snd (rotationEvaluated sol)),
                          scale := PyFloat (snd (scaleEvaluated sol)),
                          translation := pyfloats (map (\<lambda>x. x * dataScale fitter)
                                                     (snd (translationEvaluated sol))) \<rparr>
               in
               if fst (rotationEvaluated sol) = RESULT_OK \<and> fst (scaleEvaluated sol) = RESULT_OK
                  \<and> fst (translationEvaluated sol) = RESULT_OK
               then (None, s', out)
               else (Some (AssertionError
                       ''Align:  Failed to evaluate transformation for alignment to markers''),
                     s', out)))))"

definition doAlignMarkers ::
    "Fitter \<Rightarrow> FitterStepAlign \<Rightarrow> error option \<times> FitterStepAlign \<times> string list" where
  "doAlignMarkers fitter s =
     (if markerGroup fitter = None
      then (Some (AssertionError ''Align:  No marker group to align with''), s, [])
      else case modelMarkerCentres fitter of
        None \<Rightarrow>
          (Some (AssertionError ''Align:  No marker group, coordinates or name fields''), s, [])
      | Some modelMarkers \<Rightarrow>
         (case dataMarkerCentres fitter of
            None \<Rightarrow>
              (Some (AssertionError
                 ''Align:  No marker data group, coordinates or name fields''), s, [])
          | Some dataMarkers \<Rightarrow>
             (case matchMarkers (diagnosticLevel fitter) modelMarkers dataMarkers of
                (markerMap, out) \<Rightarrow>
                  (case optimiseAlignment fitter markerMap s of
                     (err, s', out') \<Rightarrow> (err, s', out @ out')))))"

text \<open>
  \<open>run\<close> returns the error raised, if any, the step, the fitter (whose model coordinates
  are the transformed ones after a successful assignment) and the lines printed.
\<close>

definition run ::
    "Fitter \<Rightarrow> FitterStepAlign \<Rightarrow> error option \<times> FitterStepAlign \<times> Fitter \<times> string list" where
  "run fitter s =
     (case modelCoordinatesField fitter of
        None \<Rightarrow> (Some (AssertionError ''Align:  Missing model coordinates''), s, fitter, [])
      | Some modelCoordinates \<Rightarrow>
         (case (if py_truthy (alignMarkers s) then doAlignMarkers fitter s else (None, s, [])) of
            (Some e, s', out) \<Rightarrow> (Some e, s', fitter, out)
          | (None, s', out) \<Rightarrow>
             (case createFieldsTransformations modelCoordinates
                     (rotation s') (scale s') (translation s') 1 of
                Inl e \<Rightarrow> (Some e, s', fitter, out)
              | Inr (modelCoordinatesTransformed, constants) \<Rightarrow>
                 if assign fitter modelCoordinatesTransformed \<notin> {RESULT_OK, RESULT_WARNING_PART_DONE}
                 then (Some (AssertionError ''Align:  Failed to transform model''), s', fitter, out)
                 else (None, s'\<lparr>hasRun := True\<rparr>,
                       fitter\<lparr>modelCoordinatesField := Some modelCoordinatesTransformed\<rparr>,
                       out))))"

subsection \<open>A fitter for concrete runs\<close>



section \<open>Properties of the settings\<close>

lemma py_eq_list_all2: "py_eq_list xs ys = list_all2 py_eq xs ys"
  by (induction xs arbitrary: ys) (auto split: list.splits simp: list_all2_Cons1)

text \<open>
  Claim C6. Encoding a step, decoding the dict into any step and encoding again gives the
  first dict back, key for key and value for value, and the decoding raises nothing; and
  decoding a dict that lacks the type-tag key fails with the assertion, leaving the step
  as it was.
\<close>

theorem settings_roundtrip:
  "fst (decodeSettingsJSONDict (encodeSettingsJSONDict s) s0) = None \<and>
   encodeSettingsJSONDict (snd (decodeSettingsJSONDict (encodeSettingsJSONDict s) s0))
     = encodeSettingsJSONDict s \<and>
   (map_of dct jsonTypeId = None \<longrightarrow>
      decodeSettingsJSONDict dct s0 = (Some (AssertionError []), s0))"
  by (simp add: decodeSettingsJSONDict_def encodeSettingsJSONDict_def jsonTypeId_def)

theorem settings_roundtrip_witness:
  "map_of ([(''alignMarkers'', PyBool True)] :: pydict) jsonTypeId = None \<and>
   decodeSettingsJSONDict [(''alignMarkers'', PyBool True)] init
     = (Some (AssertionError []), init) \<and>
   fst (decodeSettingsJSONDict (encodeSettingsJSONDict init) init) = None"
  using settings_roundtrip [of init init "[(''alignMarkers'', PyBool True)]"]
  by (simp add: jsonTypeId_def)

text \<open>
  Claim C7. Each setter returns true exactly when the supplied value differs from the
  stored one under Python's \<open>!=\<close>, storing it then, and returns false and leaves the step
  unchanged when the two are equal. For \<open>setRotation\<close> and \<open>setTranslation\<close> the value
  has length 3, as their assertion demands. Two lists are equal when they have the same
  length and equal elements at every index.
\<close>

theorem setters_report_change:
  "fst (setAlignMarkers v s) = (\<not> py_eq v (alignMarkers s)) \<and>
   (py_eq v (alignMarkers s) \<longrightarrow> snd (setAlignMarkers v s) = s) \<and>
   (\<not> py_eq v (alignMarkers s) \<longrightarrow> snd (setAlignMarkers v s) = s\<lparr>alignMarkers := v\<rparr>) \<and>
   fst (setScale v s) = (\<not> py_eq v (scale s)) \<and>
   (py_eq v (scale s) \<longrightarrow> snd (setScale v s) = s) \<and>
   (\<not> py_eq v (scale s) \<longrightarrow> snd (setScale v s) = s\<lparr>scale := v\<rparr>) \<and>
   (py_len v = Inr 3 \<longrightarrow>
      setRotation v s =
        Inr (\<not> py_eq v (rotation s), if py_eq v (rotation s) then s else s\<lparr>rotation := v\<rparr>) \<and>
      setTranslation v s =
        Inr (\<not> py_eq v (translation s),
             if py_eq v (translation s) then s else s\<lparr>translation := v\<rparr>)) \<and>
   (py_eq (PyList xs) (PyList ys) =
      (length xs = length ys \<and> (\<forall>i < length xs. py_eq (xs ! i) (ys ! i))))"
  by (simp add: setAlignMarkers_def setScale_def setRotation_def setTranslation_def py_ne_def
      py_eq_list_all2 list_all2_conv_all_nth)

theorem setters_report_change_witness:
  "py_len (pyfloats [0, 0, 0]) = Inr 3 \<and>
   setRotation (pyfloats [0, 0, 0]) init = Inr (False, init) \<and>
   setTranslation (pyfloats [0, 0, 0]) init = Inr (False, init) \<and>
   fst (setScale (pyfloats [0, 0, 0]) init) \<and>
   fst (setAlignMarkers (pyfloats [0, 0, 0]) init)"
  using setters_report_change [of "pyfloats [0, 0, 0]" init "[]" "[]"]
  by (simp add: pyfloats_def init_def)

section \<open>Properties of the transformation\<close>

lemma upt_3: "[0..<3] = [0, 1, 2]"
  by (simp add: upt_rec)

lemma upt_9: "[0..<9] = [0, 1, 2, 3, 4, 5, 6, 7, 8]"
  by (simp add: upt_rec)

lemma py_reals_floats: "py_reals (map PyFloat xs) = Some xs"
  by (induction xs) simp_all

lemma createFieldConstant_pyfloats: "createFieldConstant (pyfloats xs) = Inr xs"
  by (simp add: createFieldConstant_def pyfloats_def py_reals_floats)

lemma py_len_pyfloats: "py_len (pyfloats xs) = Inr (length xs)"
  by (simp add: pyfloats_def)

lemma length3: "length p = 3 \<Longrightarrow> \<exists>x y z. p = [x, y, z]"
  by (cases p; simp; rename_tac a q; case_tac q; simp; rename_tac b r; case_tac r; simp)


lemma createFieldsTransformations_floats:
  assumes "numberOfComponents C = 3" "length a = 3" "length t = 3"
  shows "createFieldsTransformations C (pyfloats a) (PyFloat s) (pyfloats t) f =
           Inr (\<lparr> numberOfComponents = 3,
                  nodeValues =
                    map (\<lambda>p. field_add
                           (field_multiply
                              (createFieldMatrixMultiply 3
                                 (create_field_euler_angles_rotation_matrix a) p) [s])
                           (if f = 1 then t else field_multiply t (replicate 3 f)))
                      (nodeValues C) \<rparr>,
                a, [s], t)"
proof -
  have n: "pyfloats a \<noteq> PyNone" "pyfloats t \<noteq> PyNone"
    by (simp_all add: pyfloats_def)
  have c: "createFieldConstant (PyFloat s) = Inr [s]"
    by (simp add: createFieldConstant_def)
  show ?thesis
    using assms n
    by (simp add: createFieldsTransformations_def Let_def py_len_pyfloats
        createFieldConstant_pyfloats c)
qed

lemma matrix_multiply_3:
  "createFieldMatrixMultiply 3 M [x, y, z] =
     [M ! 0 * x + M ! 1 * y + M ! 2 * z,
      M ! 3 * x + M ! 4 * y + M ! 5 * z,
      M ! 6 * x + M ! 7 * y + M ! 8 * z]"
  by (simp add: createFieldMatrixMultiply_def upt_3) (simp add: eval_nat_numeral)

lemma euler_matrix_components:
  "create_field_euler_angles_rotation_matrix [a0, a1, a2] =
     [cos a0 * cos a1,
      cos a0 * sin a1 * sin a2 - sin a0 * cos a2,
      cos a0 * sin a1 * cos a2 + sin a0 * sin a2,
      sin a0 * cos a1,
      sin a0 * sin a1 * sin a2 + cos a0 * cos a2,
      sin a0 * sin a1 * cos a2 - cos a0 * sin a2,
      - sin a1,
      cos a1 * sin a2,
      cos a1 * cos a2]"
  by (simp add: create_field_euler_angles_rotation_matrix_def matrix3_product_def upt_3 upt_9
      rotate_about_z_def rotate_about_y_def rotate_about_x_def algebra_simps)

lemma offset_scaled:
  "(if f = 1 then [t0, t1, t2] else field_multiply [t0, t1, t2] (replicate 3 f)) =
     [f * t0, f * t1, f * t2]"
  by (simp add: field_multiply_def numeral_3_eq_3 mult.commute)

lemma transformed_point_components:
  assumes "i < 3"
  shows "field_add
           (field_multiply
              (createFieldMatrixMultiply 3
                 (create_field_euler_angles_rotation_matrix [a0, a1, a2]) [x, y, z]) [s])
           [f * t0, f * t1, f * t2] ! i =
     s * (\<Sum>j<3. matrix3_product (rotate_about_z a0)
                     (matrix3_product (rotate_about_y a1) (rotate_about_x a2)) ! (3 * i + j)
                   * [x, y, z] ! j) + f * [t0, t1, t2] ! i"
proof -
  have "i = 0 \<or> i = 1 \<or> i = 2" using assms by auto
  then show ?thesis
    by (auto simp: matrix_multiply_3 field_add_def field_multiply_def
        create_field_euler_angles_rotation_matrix_def matrix3_product_def upt_3 upt_9
        lessThan_nat_numeral lessThan_Suc algebra_simps)
qed

lemma transformed_point_length:
  "length (field_add
           (field_multiply (createFieldMatrixMultiply 3 M [x, y, z]) [s])
           [o0, o1, o2]) = 3"
  by (simp add: matrix_multiply_3 field_add_def field_multiply_def)

lemma transformed_coordinates:
  assumes "numberOfComponents C = 3"
    and "\<forall>p \<in> set (nodeValues C). length p = 3"
    and "length a = 3"
    and "length t = 3"
  shows "\<exists>T. createFieldsTransformations C (pyfloats a) (PyFloat s) (pyfloats t) f
                = Inr (T, a, [s], t) \<and>
             numberOfComponents T = 3 \<and>
             length (nodeValues T) = length (nodeValues C) \<and>
             (\<forall>n < length (nodeValues C).
                length (nodeValues T ! n) = 3 \<and>
                (\<forall>i < 3.
                   nodeValues T ! n ! i =
                     s * (\<Sum>j<3. matrix3_product (rotate_about_z (a ! 0))
                                     (matrix3_product (rotate_about_y (a ! 1))
                                        (rotate_about_x (a ! 2))) ! (3 * i + j)
                                   * nodeValues C ! n ! j)
                     + f * t ! i))"
proof -
  obtain a0 a1 a2 where a: "a = [a0, a1, a2]"
    using length3 [OF assms(3)] by blast
  obtain t0 t1 t2 where t: "t = [t0, t1, t2]"
    using length3 [OF assms(4)] by blast
  let ?q = "\<lambda>p. field_add
                 (field_multiply
                    (createFieldMatrixMultiply 3
                       (create_field_euler_angles_rotation_matrix [a0, a1, a2]) p) [s])
                 [f * t0, f * t1, f * t2]"
  let ?T = "\<lparr> numberOfComponents = 3, nodeValues = map ?q (nodeValues C) \<rparr>"
  have r: "createFieldsTransformations C (pyfloats a) (PyFloat s) (pyfloats t) f
             = Inr (?T, a, [s], t)"
    using createFieldsTransformations_floats [OF assms(1) assms(3) assms(4), of s f]
    by (simp only: a t offset_scaled)
  have pts: "length (?q (nodeValues C ! n)) = 3 \<and>
             (\<forall>i < 3. ?q (nodeValues C ! n) ! i =
                s * (\<Sum>j<3. matrix3_product (rotate_about_z (a ! 0))
                                (matrix3_product (rotate_about_y (a ! 1))
                                   (rotate_about_x (a ! 2))) ! (3 * i + j)
                              * nodeValues C ! n ! j)
                + f * t ! i)"
    if n: "n < length (nodeValues C)" for n
  proof -
    have "length (nodeValues C ! n) = 3"
      using assms(2) n by simp
    then obtain x y z where p: "nodeValues C ! n = [x, y, z]"
      using length3 by blast
    have a_nth: "a ! 0 = a0" "a ! 1 = a1" "a ! 2 = a2"
      by (simp_all add: a)
    show ?thesis
      unfolding p a_nth t
      using transformed_point_components [of _ a0 a1 a2 x y z s f t0 t1 t2]
        transformed_point_length
      by blast
  qed
  show ?thesis
    using r pts by (intro exI [of _ ?T]) simp
qed

text \<open>
  Claim C4. For a field of 3 components, rotation angles and translation offsets of length
  3, a float scale \<open>s\<close> and any translation scale factor \<open>f\<close>, the construction succeeds
  and every component \<open>i\<close> of every transformed node value is
  \<open>s * (R * C)\<^sub>i + f * t\<^sub>i\<close>, where \<open>R = Rz(a\<^sub>0) Ry(a\<^sub>1) Rx(a\<^sub>2)\<close>: rotate, then scale,
  then translate. The three constant fields returned hold the angles, the scale and the
  unscaled offsets.
\<close>

theorem transformation_formula:
  assumes "numberOfComponents C = 3"
    and "\<forall>p \<in> set (nodeValues C). length p = 3"
    and "length a = 3"
    and "length t = 3"
  shows "\<exists>T. createFieldsTransformations C (pyfloats a) (PyFloat s) (pyfloats t) f
                = Inr (T, a, [s], t) \<and>
             numberOfComponents T = 3 \<and>
             length (nodeValues T) = length (nodeValues C) \<and>
             (\<forall>n < length (nodeValues C).
                length (nodeValues T ! n) = 3 \<and>
                (\<forall>i < 3.
                   nodeValues T ! n ! i =
                     s * (\<Sum>j<3. matrix3_product (rotate_about_z (a ! 0))
                                     (matrix3_product (rotate_about_y (a ! 1))
                                        (rotate_about_x (a ! 2))) ! (3 * i + j)
                                   * nodeValues C ! n ! j)
                     + f * t ! i))"
  using assms by (rule transformed_coordinates)

theorem transformation_formula_witness:
  "numberOfComponents \<lparr> numberOfComponents = 3, nodeValues = [[1, 0, 0]] \<rparr> = 3 \<and>
   length [0, 0, 0 :: real] = 3 \<and> length [1, 2, 3 :: real] = 3 \<and>
   nodeValues (fst (projr (createFieldsTransformations
       \<lparr> numberOfComponents = 3, nodeValues = [[1, 0, 0]] \<rparr>
       (pyfloats [0, 0, 0]) (PyFloat 2) (pyfloats [1, 2, 3]) 5))) ! 0 ! 1 = 10"
proof -
  let ?C = "\<lparr> numberOfComponents = 3, nodeValues = [[1, 0, 0 :: real]] \<rparr>"
  let ?R = "matrix3_product (rotate_about_z ([0, 0, 0] ! 0))
              (matrix3_product (rotate_about_y ([0, 0, 0] ! 1))
                 (rotate_about_x ([0, 0, 0] ! 2)))"
  have h1: "numberOfComponents ?C = 3" by simp
  have h2: "\<forall>p \<in> set (nodeValues ?C). length p = 3" by simp
  have h3: "length [0, 0, 0 :: real] = 3" by simp
  have h4: "length [1, 2, 3 :: real] = 3" by simp
  obtain T where r: "createFieldsTransformations ?C (pyfloats [0, 0, 0]) (PyFloat 2)
                       (pyfloats [1, 2, 3]) 5 = Inr (T, [0, 0, 0], [2], [1, 2, 3])"
    and pts: "\<forall>n < length (nodeValues ?C).
                length (nodeValues T ! n) = 3 \<and>
                (\<forall>i < 3.
                   nodeValues T ! n ! i =
                     2 * (\<Sum>j<3. ?R ! (3 * i + j) * nodeValues ?C ! n ! j)
                     + 5 * [1, 2, 3] ! i)"
    using transformation_formula [OF h1 h2 h3 h4, of 2 5] by (elim exE conjE)
  have "\<forall>i < 3. nodeValues T ! 0 ! i =
                     2 * (\<Sum>j<3. ?R ! (3 * i + j) * nodeValues ?C ! 0 ! j)
                     + 5 * [1, 2, 3] ! i"
    using pts [rule_format, of 0] by simp
  then have "nodeValues T ! 0 ! 1 =
                     2 * (\<Sum>j<3. ?R ! (3 * 1 + j) * nodeValues ?C ! 0 ! j)
                     + 5 * [1, 2, 3] ! 1"
    by (rule allE [of _ 1]) simp
  then have "nodeValues T ! 0 ! 1 = 10"
    by (simp add: matrix3_product_def upt_3 upt_9 rotate_about_z_def rotate_about_y_def
        rotate_about_x_def lessThan_nat_numeral lessThan_Suc)
  with r show ?thesis by simp
qed


lemma identity_point:
  "field_add
     (field_multiply
        (createFieldMatrixMultiply 3 (create_field_euler_angles_rotation_matrix [0, 0, 0])
           [x, y, z]) [1])
     [0, 0, 0] = [x, y, z]"
  by (simp add: euler_matrix_components matrix_multiply_3 field_add_def field_multiply_def)


text \<open>
  Claim C9. With zero angles, scale 1.0, zero offsets and translation scale factor 1.0,
  given explicitly or by their defaults, the transformed coordinates of a 3-component
  field are the field itself.
\<close>

theorem identity_parameters:
  assumes "numberOfComponents C = 3"
    and "\<forall>p \<in> set (nodeValues C). length p = 3"
  shows "createFieldsTransformations C (pyfloats [0, 0, 0]) (PyFloat 1) (pyfloats [0, 0, 0]) 1
           = Inr (C, [0, 0, 0], [1], [0, 0, 0]) \<and>
         createFieldsTransformations C PyNone (PyFloat 1) PyNone 1
           = Inr (C, [0, 0, 0], [1], [0, 0, 0])"
proof -
  let ?q = "\<lambda>p. field_add
                 (field_multiply
                    (createFieldMatrixMultiply 3
                       (create_field_euler_angles_rotation_matrix [0, 0, 0]) p) [1])
                 [0, 0, 0]"
  have "?q p = p" if "p \<in> set (nodeValues C)" for p
  proof -
    have "length p = 3"
      using assms(2) that by simp
    then obtain x y z where "p = [x, y, z]"
      using length3 by blast
    then show ?thesis by (simp only: identity_point)
  qed
  then have m: "map ?q (nodeValues C) = nodeValues C"
    by (rule map_idI)
  have C: "\<lparr> numberOfComponents = 3, nodeValues = nodeValues C \<rparr> = C"
    using assms(1) by simp
  have l: "length [0, 0, 0 :: real] = 3" by simp
  have r: "createFieldsTransformations C (pyfloats [0, 0, 0]) (PyFloat 1)
                  (pyfloats [0, 0, 0]) 1 = Inr (C, [0, 0, 0], [1], [0, 0, 0])"
    using createFieldsTransformations_floats [OF assms(1) l l, of 1 1]
    by (simp only: if_True refl m C)
  have d: "createFieldsTransformations C PyNone (PyFloat 1) PyNone 1
          = createFieldsTransformations C (pyfloats [0, 0, 0]) (PyFloat 1) (pyfloats [0, 0, 0]) 1"
    by (simp add: createFieldsTransformations_def Let_def pyfloats_def)
  show ?thesis
    using r d by simp
qed


theorem identity_parameters_witness:
  "numberOfComponents \<lparr> numberOfComponents = 3, nodeValues = [[1, 2, 3], [4, 5, 6]] \<rparr> = 3 \<and>
   createFieldsTransformations \<lparr> numberOfComponents = 3, nodeValues = [[1, 2, 3], [4, 5, 6]] \<rparr>
      (pyfloats [0, 0, 0]) (PyFloat 1) (pyfloats [0, 0, 0]) 1
     = Inr (\<lparr> numberOfComponents = 3, nodeValues = [[1, 2, 3], [4, 5, 6]] \<rparr>,
            [0, 0, 0], [1], [0, 0, 0])"
proof -
  let ?C = "\<lparr> numberOfComponents = 3, nodeValues = [[1, 2, 3], [4, 5, 6 :: real]] \<rparr>"
  have h1: "numberOfComponents ?C = 3" by simp
  have h2: "\<forall>p \<in> set (nodeValues ?C). length p = 3" by simp
  show ?thesis
    using identity_parameters [OF h1 h2] h1 by blast
qed

lemma createFieldsTransformations_not_float:
  assumes "\<not> isinstance_float sc" "py_len r = Inr n"
  shows "createFieldsTransformations C r sc t f = Inl invalid_arguments"
proof -
  have "r \<noteq> PyNone" using assms(2) by auto
  then show ?thesis
    using assms by (simp add: createFieldsTransformations_def Let_def)
qed

text \<open>
  Claim C5, as stated, fails: a scale of 0.0 is accepted by \<open>setScale\<close> and by
  \<open>createFieldsTransformations\<close>, which returns the transform that sends every point to
  the translation (here zero, with factor 1), with no error and no message.
\<close>

theorem zero_scale_accepted_counterexample:
  "createFieldsTransformations \<lparr> numberOfComponents = 3, nodeValues = [[1, 2, 3]] \<rparr>
      (pyfloats [0, 0, 0]) (PyFloat 0) (pyfloats [0, 0, 0]) 1
     = Inr (\<lparr> numberOfComponents = 3, nodeValues = [[0, 0, 0]] \<rparr>, [0, 0, 0], [0], [0, 0, 0]) \<and>
   setScale (PyFloat 0) init = (True, init\<lparr>scale := PyFloat 0\<rparr>)"
proof -
  have "createFieldsTransformations \<lparr> numberOfComponents = 3, nodeValues = [[1, 2, 3]] \<rparr>
      (pyfloats [0, 0, 0]) (PyFloat 0) (pyfloats [0, 0, 0]) 1
     = Inr (\<lparr> numberOfComponents = 3, nodeValues = [[0, 0, 0]] \<rparr>, [0, 0, 0], [0], [0, 0, 0])"
    by (simp add: createFieldsTransformations_floats matrix_multiply_3 field_add_def
        field_multiply_def)
  moreover have "setScale (PyFloat 0) init = (True, init\<lparr>scale := PyFloat 0\<rparr>)"
    by (simp add: setScale_def py_ne_def init_def)
  ultimately show ?thesis by simp
qed

lemma zero_scale_point:
  "field_add (field_multiply (createFieldMatrixMultiply 3 M [x, y, z]) [0])
     [f * t0, f * t1, f * t2] = map (\<lambda>u. f * u) [t0, t1, t2]"
  by (simp add: matrix_multiply_3 field_add_def field_multiply_def)

lemma zero_scale_transformation:
  assumes "numberOfComponents C = 3"
    and "\<forall>p \<in> set (nodeValues C). length p = 3"
    and "length a = 3"
    and "length t = 3"
  shows "createFieldsTransformations C (pyfloats a) (PyFloat 0) (pyfloats t) f =
           Inr (\<lparr> numberOfComponents = 3,
                  nodeValues = map (\<lambda>p. map (\<lambda>u. f * u) t) (nodeValues C) \<rparr>,
                a, [0], t)"
proof -
  obtain t0 t1 t2 where t: "t = [t0, t1, t2]"
    using length3 [OF assms(4)] by blast
  let ?q = "\<lambda>p. field_add
                 (field_multiply
                    (createFieldMatrixMultiply 3
                       (create_field_euler_angles_rotation_matrix a) p) [0])
                 [f * t0, f * t1, f * t2]"
  have "?q p = map (\<lambda>u. f * u) t" if "p \<in> set (nodeValues C)" for p
  proof -
    have "length p = 3"
      using assms(2) that by simp
    then obtain x y z where "p = [x, y, z]"
      using length3 by blast
    then show ?thesis
      by (simp only: zero_scale_point t)
  qed
  then have m: "map ?q (nodeValues C) = map (\<lambda>p. map (\<lambda>u. f * u) t) (nodeValues C)"
    by (simp only: map_eq_conv) blast
  have "createFieldsTransformations C (pyfloats a) (PyFloat 0) (pyfloats t) f =
          Inr (\<lparr> numberOfComponents = 3, nodeValues = map ?q (nodeValues C) \<rparr>, a, [0], t)"
    using createFieldsTransformations_floats [OF assms(1) assms(3) assms(4), of 0 f]
    by (simp only: t offset_scaled)
  then show ?thesis
    by (simp only: m)
qed

text \<open>
  Claim C5, amended. The only check on the scale is that it is a float. A scale that is
  not a float fails the argument assertion. Every float scale \<open>s\<close>, zero and negative
  ones included, is accepted without any flag and the transform is built with it: every
  transformed component is \<open>s * (R * C)\<^sub>i + f * t\<^sub>i\<close>, so a zero scale sends every point
  to \<open>f\<close> times the translation. \<open>setScale\<close> stores any value that differs from the
  stored one.
\<close>

theorem scale_checked_for_float_only:
  assumes "numberOfComponents C = 3"
    and "\<forall>p \<in> set (nodeValues C). length p = 3"
    and "length a = 3"
    and "length t = 3"
  shows "(\<not> isinstance_float sc \<longrightarrow>
            createFieldsTransformations C (pyfloats a) sc (pyfloats t) f = Inl invalid_arguments) \<and>
         (\<exists>T. createFieldsTransformations C (pyfloats a) (PyFloat s) (pyfloats t) f
                 = Inr (T, a, [s], t) \<and>
              numberOfComponents T = 3 \<and>
              length (nodeValues T) = length (nodeValues C) \<and>
              (\<forall>n < length (nodeValues C).
                 length (nodeValues T ! n) = 3 \<and>
                 (\<forall>i < 3.
                    nodeValues T ! n ! i =
                      s * (\<Sum>j<3. matrix3_product (rotate_about_z (a ! 0))
                                      (matrix3_product (rotate_about_y (a ! 1))
                                         (rotate_about_x (a ! 2))) ! (3 * i + j)
                                    * nodeValues C ! n ! j)
                      + f * t ! i))) \<and>
         createFieldsTransformations C (pyfloats a) (PyFloat 0) (pyfloats t) f =
           Inr (\<lparr> numberOfComponents = 3,
                  nodeValues = map (\<lambda>p. map (\<lambda>u. f * u) t) (nodeValues C) \<rparr>,
                a, [0], t) \<and>
         (\<forall>v. setScale v st = (\<not> py_eq v (scale st),
                                if py_eq v (scale st) then st else st\<lparr>scale := v\<rparr>))"
proof -
  have 1: "\<not> isinstance_float sc \<longrightarrow>
            createFieldsTransformations C (pyfloats a) sc (pyfloats t) f = Inl invalid_arguments"
    using createFieldsTransformations_not_float [of sc "pyfloats a" "length a" C "pyfloats t" f]
    by (simp add: py_len_pyfloats)
  note 2 = transformed_coordinates [OF assms, of s f]
  note 3 = zero_scale_transformation [OF assms, of f]
  have 4: "\<forall>v. setScale v st = (\<not> py_eq v (scale st),
                                if py_eq v (scale st) then st else st\<lparr>scale := v\<rparr>)"
    by (simp add: setScale_def py_ne_def)
  show ?thesis
    by (intro conjI 1 2 3 4)
qed

theorem scale_checked_for_float_only_witness:
  "numberOfComponents \<lparr> numberOfComponents = 3, nodeValues = [[1, 2, 3]] \<rparr> = 3 \<and>
   length [0, 0, 0 :: real] = 3 \<and>
   length [4, 5, 6 :: real] = 3 \<and>
   \<not> isinstance_float (PyInt 2) \<and>
   createFieldsTransformations \<lparr> numberOfComponents = 3, nodeValues = [[1, 2, 3]] \<rparr>
      (pyfloats [0, 0, 0]) (PyInt 2) (pyfloats [4, 5, 6]) 2 = Inl invalid_arguments \<and>
   createFieldsTransformations \<lparr> numberOfComponents = 3, nodeValues = [[1, 2, 3]] \<rparr>
      (pyfloats [0, 0, 0]) (PyFloat 0) (pyfloats [4, 5, 6]) 2
     = Inr (\<lparr> numberOfComponents = 3, nodeValues = [[8, 10, 12]] \<rparr>,
            [0, 0, 0], [0], [4, 5, 6]) \<and>
   \<not> isl (createFieldsTransformations \<lparr> numberOfComponents = 3, nodeValues = [[1, 2, 3]] \<rparr>
      (pyfloats [0, 0, 0]) (PyFloat (- 1)) (pyfloats [4, 5, 6]) 2)"
proof -
  let ?C = "\<lparr> numberOfComponents = 3, nodeValues = [[1, 2, 3 :: real]] \<rparr>"
  have h1: "numberOfComponents ?C = 3" by simp
  have h2: "\<forall>p \<in> set (nodeValues ?C). length p = 3" by simp
  have h3: "length [0, 0, 0 :: real] = 3" by simp
  have h4: "length [4, 5, 6 :: real] = 3" by simp
  have h5: "\<not> isinstance_float (PyInt 2)" by simp
  note w = scale_checked_for_float_only [OF h1 h2 h3 h4, of "PyInt 2" 2 "- 1" init]
  have a: "createFieldsTransformations ?C (pyfloats [0, 0, 0]) (PyInt 2) (pyfloats [4, 5, 6]) 2
             = Inl invalid_arguments"
    using w h5 by (elim conjE) simp
  have z: "createFieldsTransformations ?C (pyfloats [0, 0, 0]) (PyFloat 0) (pyfloats [4, 5, 6]) 2
             = Inr (\<lparr> numberOfComponents = 3, nodeValues = [[8, 10, 12]] \<rparr>,
                    [0, 0, 0], [0], [4, 5, 6])"
    using w by (elim conjE) simp
  have "\<exists>T. createFieldsTransformations ?C (pyfloats [0, 0, 0]) (PyFloat (- 1))
                   (pyfloats [4, 5, 6]) 2 = Inr (T, [0, 0, 0], [- 1], [4, 5, 6])"
    using w by (elim conjE exE) (rule exI)
  then have b: "\<not> isl (createFieldsTransformations ?C (pyfloats [0, 0, 0]) (PyFloat (- 1))
                   (pyfloats [4, 5, 6]) 2)"
    by auto
  show ?thesis
    using h1 h3 h4 h5 a z b by (intro conjI)
qed









section \<open>Properties of marker matching\<close>

lemma map_of_dict_set: "map_of (dict_set d k v) = (map_of d)(k \<mapsto> v)"
  by (induction d k v rule: dict_set.induct) auto

lemma subseq_dict_pop: "subseq (dict_pop d k) d"
  by (induction d k rule: dict_pop.induct) auto

lemma dict_pop_removes: "distinct (map fst d) \<Longrightarrow> k \<notin> fst ` set (dict_pop d k)"
proof (induction d k rule: dict_pop.induct)
  case (1 k)
  then show ?case by simp
next
  case (2 k' v' d k)
  then show ?case by (auto simp: image_iff)
qed

lemma match_model_marker_found:
  assumes "find (\<lambda>(dataName, datax). casefold (strip dataName) = casefold (strip modelName))
             dataMarkers = Some (dataName, datax)"
  shows "fst (match_model_marker wd (modelName, modelx) (markerMap, dataMarkers, out))
           = dict_set markerMap modelName (modelx, datax) \<and>
         fst (snd (match_model_marker wd (modelName, modelx) (markerMap, dataMarkers, out)))
           = (if wd then dict_pop dataMarkers dataName else dataMarkers)"
  using assms by (simp add: match_model_marker_def)

lemma match_model_marker_not_found:
  assumes "find (\<lambda>(dataName, datax). casefold (strip dataName) = casefold (strip modelName))
             dataMarkers = None"
  shows "fst (match_model_marker wd (modelName, modelx) (markerMap, dataMarkers, out))
           = markerMap \<and>
         fst (snd (match_model_marker wd (modelName, modelx) (markerMap, dataMarkers, out)))
           = dataMarkers"
  using assms by (simp add: match_model_marker_def)

lemma match_model_marker_other_key:
  assumes "k \<noteq> fst model"
  shows "map_of (fst (match_model_marker wd model st)) k = map_of (fst st) k"
proof -
  obtain modelName modelx where m: "model = (modelName, modelx)" by (cases model)
  obtain markerMap dataMarkers out where s: "st = (markerMap, dataMarkers, out)"
    by (cases st) auto
  show ?thesis
  proof (cases "find (\<lambda>(dataName, datax). casefold (strip dataName) = casefold (strip modelName))
             dataMarkers")
    case None
    then show ?thesis
      using match_model_marker_not_found [OF None] by (simp add: m s)
  next
    case (Some e)
    obtain dataName datax where e: "e = (dataName, datax)" by (cases e)
    show ?thesis
      using match_model_marker_found [OF Some [unfolded e]] assms
      by (simp add: m s map_of_dict_set)
  qed
qed

lemma match_model_marker_subseq:
  "subseq (fst (snd (match_model_marker wd model st))) (fst (snd st))"
proof -
  obtain modelName modelx where m: "model = (modelName, modelx)" by (cases model)
  obtain markerMap dataMarkers out where s: "st = (markerMap, dataMarkers, out)"
    by (cases st) auto
  show ?thesis
  proof (cases "find (\<lambda>(dataName, datax). casefold (strip dataName) = casefold (strip modelName))
             dataMarkers")
    case None
    then show ?thesis
      using match_model_marker_not_found [OF None] by (simp add: m s)
  next
    case (Some e)
    obtain dataName datax where e: "e = (dataName, datax)" by (cases e)
    show ?thesis
      using match_model_marker_found [OF Some [unfolded e]]
      by (simp add: m s subseq_dict_pop)
  qed
qed

lemma match_markers_append:
  "match_markers wd (xs @ ys) st = match_markers wd ys (match_markers wd xs st)"
  by (induction xs arbitrary: st) simp_all

lemma match_markers_other_key:
  "k \<notin> fst ` set ms \<Longrightarrow> map_of (fst (match_markers wd ms st)) k = map_of (fst st) k"
proof (induction ms arbitrary: st)
  case Nil
  then show ?case by simp
next
  case (Cons m ms)
  then show ?case
    by (simp add: match_model_marker_other_key)
qed

lemma match_markers_subseq:
  "subseq (fst (snd (match_markers wd ms st))) (fst (snd st))"
proof (induction ms arbitrary: st)
  case Nil
  then show ?case by simp
next
  case (Cons m ms)
  have "subseq (fst (snd (match_markers wd ms (match_model_marker wd m st))))
          (fst (snd (match_model_marker wd m st)))"
    by (rule Cons.IH)
  then show ?case
    using match_model_marker_subseq [of wd m st] subseq_order.trans by fastforce
qed

lemma fst_matchMarkers:
  "fst (matchMarkers level ms ds) = fst (match_markers (0 < level) ms ([], ds, []))"
  by (simp add: matchMarkers_def Let_def split: prod.splits)

text \<open>
  Claim C1, evaluated on the code. With the two model markers \<open>Apex\<close> and \<open>APEX\<close> and the
  one data marker \<open>\<^verbatim>\<open> apex \<close>\<close>, diagnostic level 0 pairs both model markers with the data
  marker, and diagnostic level 1 pairs only the first: the \<open>pop\<close> that consumes a matched
  data marker runs only when diagnostics are written, so the marker map depends on the
  level.
\<close>

theorem diagnostics_change_marker_map:
  "fst (matchMarkers 0 [(''Apex'', [0, 0, 0]), (''APEX'', [1, 0, 0])] [('' apex '', [5, 5, 5])])
     = [(''Apex'', [0, 0, 0], [5, 5, 5]), (''APEX'', [1, 0, 0], [5, 5, 5])] \<and>
   fst (matchMarkers 1 [(''Apex'', [0, 0, 0]), (''APEX'', [1, 0, 0])] [('' apex '', [5, 5, 5])])
     = [(''Apex'', [0, 0, 0], [5, 5, 5])]"
  by code_simp

text \<open>
  Claim C2, evaluated on the code. At diagnostic level 0 the model markers \<open>Apex\<close> and
  \<open>\<^verbatim>\<open>apex \<close>\<close> are both paired with the coordinates of the one data marker \<open>APEX\<close>: the
  matched entry was not removed after the first match.
\<close>

theorem data_marker_matched_twice:
  "fst (matchMarkers 0 [(''Apex'', [0, 0, 0]), (''apex '', [1, 0, 0])]
          [(''APEX'', [5, 5, 5]), (''Base'', [9, 9, 9])])
     = [(''Apex'', [0, 0, 0], [5, 5, 5]), (''apex '', [1, 0, 0], [5, 5, 5])]"
  by code_simp

text \<open>
  When diagnostics are written the matched data marker is removed, and no later model
  marker can find it.
\<close>

lemma matched_data_marker_consumed:
  assumes "distinct (map fst dataMarkers)"
    and "find (\<lambda>(dataName, datax). casefold (strip dataName) = casefold (strip modelName))
             dataMarkers = Some (dataName, datax)"
  shows "dataName \<notin> fst ` set (fst (snd (match_model_marker True (modelName, modelx)
                                             (markerMap, dataMarkers, out))))"
  using match_model_marker_found [OF assms(2), of True modelx markerMap out]
    dict_pop_removes [OF assms(1), of dataName]
  by simp

text \<open>
  Claim C8, as stated, fails: at diagnostic level 1 the model name \<open>APEX\<close> and the data
  name \<open>\<^verbatim>\<open> apex \<close>\<close> are equal after trimming and case-folding, yet the matcher leaves
  \<open>APEX\<close> unpaired, because the model marker \<open>Apex\<close> before it consumed the data marker.
\<close>

theorem normalised_match_unpaired_counterexample:
  "casefold (strip ''APEX'') = casefold (strip '' apex '') \<and>
   map_of (fst (matchMarkers 1 [(''Apex'', [0, 0, 0]), (''APEX'', [1, 0, 0])]
                  [('' apex '', [5, 5, 5])])) ''APEX'' = None"
  by code_simp

lemma pairing_from_remaining:
  assumes "distinct (map fst modelMarkers)"
    and "modelMarkers = pre @ (modelName, modelx) # post"
    and "match_markers (0 < level) pre ([], dataMarkers, []) = (markerMap0, remaining, out0)"
  shows "subseq remaining dataMarkers \<and>
         map_of (fst (matchMarkers level modelMarkers dataMarkers)) modelName =
          (case find (\<lambda>(dataName, datax). casefold (strip dataName) = casefold (strip modelName))
                  remaining of
             None \<Rightarrow> None
           | Some (dataName, datax) \<Rightarrow> Some (modelx, datax))"
proof -
  let ?wd = "0 < level"
  let ?st0 = "([], dataMarkers, []) :: match_state"
  let ?st1 = "match_markers ?wd pre ?st0"
  let ?st2 = "match_model_marker ?wd (modelName, modelx) ?st1"
  have notin_pre: "modelName \<notin> fst ` set pre" and notin_post: "modelName \<notin> fst ` set post"
    using assms(1) unfolding assms(2) by auto
  have sub: "subseq remaining dataMarkers"
    using match_markers_subseq [of ?wd pre ?st0] by (simp add: assms(3))
  have "map_of markerMap0 modelName = map_of (fst ?st0) modelName"
    using match_markers_other_key [OF notin_pre, of ?wd ?st0] by (simp add: assms(3))
  then have none0: "map_of markerMap0 modelName = None" by simp
  have whole: "match_markers ?wd modelMarkers ?st0 = match_markers ?wd post ?st2"
    by (simp add: assms(2) match_markers_append)
  have "map_of (fst (match_markers ?wd post ?st2)) modelName = map_of (fst ?st2) modelName"
    by (rule match_markers_other_key [OF notin_post])
  then have final: "map_of (fst (matchMarkers level modelMarkers dataMarkers)) modelName
                      = map_of (fst ?st2) modelName"
    by (simp add: fst_matchMarkers whole)
  have step: "map_of (fst ?st2) modelName =
          (case find (\<lambda>(dataName, datax). casefold (strip dataName) = casefold (strip modelName))
                  remaining of
             None \<Rightarrow> None
           | Some (dataName, datax) \<Rightarrow> Some (modelx, datax))"
  proof (cases "find (\<lambda>(dataName, datax). casefold (strip dataName) = casefold (strip modelName))
                  remaining")
    case None
    then show ?thesis
      using match_model_marker_not_found [OF None, of ?wd modelx markerMap0 out0] none0
      by (simp add: assms(3))
  next
    case (Some e)
    obtain dataName datax where e: "e = (dataName, datax)" by (cases e)
    show ?thesis
      using match_model_marker_found [OF Some [unfolded e], of ?wd modelx markerMap0 out0]
      by (simp add: assms(3) Some e map_of_dict_set)
  qed
  show ?thesis
    using sub final step by simp
qed

lemma find_filter:
  "find P xs = (case filter P xs of [] \<Rightarrow> None | x # _ \<Rightarrow> Some x)"
  by (induction xs) simp_all

lemma filter_dict_pop_found:
  assumes "find (\<lambda>(n, x). q n) R = Some e"
  shows "filter (\<lambda>(n, x). q n) (dict_pop R (fst e)) = tl (filter (\<lambda>(n, x). q n) R)"
  using assms
proof (induction R)
  case Nil
  then show ?case by simp
next
  case (Cons kv R)
  obtain k v where kv: "kv = (k, v)" by (cases kv)
  show ?case
  proof (cases "q k")
    case True
    then have "e = (k, v)" using Cons.prems by (simp add: kv)
    then show ?thesis using True by (simp add: kv)
  next
    case False
    then have f: "find (\<lambda>(n, x). q n) R = Some e"
      using Cons.prems by (simp add: kv)
    then have "q (fst e)"
      by (auto simp: find_Some_iff)
    then have "k \<noteq> fst e" using False by auto
    then show ?thesis
      using False Cons.IH [OF f] by (simp add: kv)
  qed
qed

lemma filter_dict_pop_other:
  "\<not> q k \<Longrightarrow> filter (\<lambda>(n, x). q n) (dict_pop R k) = filter (\<lambda>(n, x). q n) R"
  by (induction R k rule: dict_pop.induct) auto

lemma match_model_marker_candidates:
  "filter (\<lambda>(n, x). casefold (strip n) = \<nu>)
      (fst (snd (match_model_marker True (modelName, modelx) (markerMap, R, out))))
     = drop (if casefold (strip modelName) = \<nu> then 1 else 0)
         (filter (\<lambda>(n, x). casefold (strip n) = \<nu>) R)"
proof (cases "find (\<lambda>(dataName, datax). casefold (strip dataName) = casefold (strip modelName)) R")
  case None
  have d: "fst (snd (match_model_marker True (modelName, modelx) (markerMap, R, out))) = R"
    using match_model_marker_not_found [OF None] by simp
  have "filter (\<lambda>(n, x). casefold (strip n) = casefold (strip modelName)) R = []"
    using None by (simp add: find_filter split: list.splits)
  then show ?thesis
    by (auto simp: d)
next
  case (Some e)
  obtain dataName datax where e: "e = (dataName, datax)" by (cases e)
  have d: "fst (snd (match_model_marker True (modelName, modelx) (markerMap, R, out)))
             = dict_pop R dataName"
    using match_model_marker_found [OF Some [unfolded e], of True modelx markerMap out] by simp
  have n: "casefold (strip dataName) = casefold (strip modelName)"
    using Some by (auto simp: find_Some_iff e)
  show ?thesis
  proof (cases "casefold (strip modelName) = \<nu>")
    case True
    have "filter (\<lambda>(n, x). casefold (strip n) = casefold (strip modelName)) (dict_pop R (fst e))
            = tl (filter (\<lambda>(n, x). casefold (strip n) = casefold (strip modelName)) R)"
      by (rule filter_dict_pop_found [OF Some])
    then show ?thesis
      using True by (simp add: d e drop_Suc)
  next
    case False
    then have "casefold (strip dataName) \<noteq> \<nu>" using n by simp
    then show ?thesis
      using False filter_dict_pop_other [of "\<lambda>n. casefold (strip n) = \<nu>" dataName R]
      by (simp add: d)
  qed
qed

lemma match_markers_candidates:
  "filter (\<lambda>(n, x). casefold (strip n) = \<nu>) (fst (snd (match_markers True ms st)))
     = drop (length (filter (\<lambda>(n, x). casefold (strip n) = \<nu>) ms))
         (filter (\<lambda>(n, x). casefold (strip n) = \<nu>) (fst (snd st)))"
proof (induction ms arbitrary: st)
  case Nil
  then show ?case by simp
next
  case (Cons m ms)
  obtain modelName modelx where m: "m = (modelName, modelx)" by (cases m)
  obtain markerMap R out where st: "st = (markerMap, R, out)" by (cases st) auto
  show ?case
    using Cons.IH [of "match_model_marker True (modelName, modelx) (markerMap, R, out)"]
      match_model_marker_candidates [of \<nu> modelName modelx markerMap R out]
    by (simp add: m st)
qed

lemma match_markers_data_kept:
  "fst (snd (match_markers False ms st)) = fst (snd st)"
proof (induction ms arbitrary: st)
  case Nil
  then show ?case by simp
next
  case (Cons m ms)
  have "fst (snd (match_model_marker False m st)) = fst (snd st)"
    by (cases m; cases st) (auto simp: match_model_marker_def split: option.splits)
  then show ?case
    using Cons.IH [of "match_model_marker False m st"] by simp
qed

lemma drop_head:
  "(case drop j xs of [] \<Rightarrow> None | x # _ \<Rightarrow> Some x) = (if j < length xs then Some (xs ! j) else None)"
proof (cases "j < length xs")
  case True
  then have "drop j xs = xs ! j # drop (Suc j) xs"
    by (simp add: Cons_nth_drop_Suc)
  then show ?thesis using True by simp
next
  case False
  then show ?thesis by simp
qed

text \<open>
  Claim C8, amended. Model marker names are distinct. A model marker that no earlier model
  marker shares its trimmed and case-folded name with is paired, at every diagnostic
  level, with the first data marker of the data set, in its enumeration order, whose
  trimmed and case-folded name equals its own, and is left unpaired when there is none.
  When diagnostics are on, matched data markers are consumed: the model marker that \<open>j\<close>
  earlier model markers share its normalised name with is paired with data marker number
  \<open>j\<close>, counting from 0 in enumeration order, among the data markers of that normalised
  name, and is left unpaired when there are no more than \<open>j\<close> of them.
\<close>

theorem normalised_name_matching:
  assumes "distinct (map fst modelMarkers)"
    and "modelMarkers = pre @ (modelName, modelx) # post"
  shows
    "(filter (\<lambda>(n, x). casefold (strip n) = casefold (strip modelName)) pre = [] \<longrightarrow>
        map_of (fst (matchMarkers level modelMarkers dataMarkers)) modelName =
          (case find (\<lambda>(dataName, datax). casefold (strip dataName) = casefold (strip modelName))
                  dataMarkers of
             None \<Rightarrow> None
           | Some (dataName, datax) \<Rightarrow> Some (modelx, datax))) \<and>
     (0 < level \<longrightarrow>
        map_of (fst (matchMarkers level modelMarkers dataMarkers)) modelName =
          (let earlier = filter (\<lambda>(n, x). casefold (strip n) = casefold (strip modelName)) pre;
               candidates = filter (\<lambda>(n, x). casefold (strip n) = casefold (strip modelName))
                              dataMarkers
           in if length earlier < length candidates
              then Some (modelx, snd (candidates ! length earlier))
              else None))"
proof -
  let ?Q = "\<lambda>(n, x). casefold (strip n) = casefold (strip modelName)"
  let ?st = "match_markers (0 < level) pre ([], dataMarkers, [])"
  obtain markerMap0 remaining out0 where s: "?st = (markerMap0, remaining, out0)"
    by (cases ?st) auto
  have p: "map_of (fst (matchMarkers level modelMarkers dataMarkers)) modelName =
             (case find ?Q remaining of
                None \<Rightarrow> None
              | Some (dataName, datax) \<Rightarrow> Some (modelx, datax))"
    using pairing_from_remaining [OF assms s] by (rule conjunct2)
  have on: "filter ?Q remaining = drop (length (filter ?Q pre)) (filter ?Q dataMarkers)"
    if "0 < level"
    using match_markers_candidates [of "casefold (strip modelName)" pre "([], dataMarkers, [])"]
      that s by simp
  have off: "remaining = dataMarkers" if "\<not> 0 < level"
    using match_markers_data_kept [of pre "([], dataMarkers, [])"] that s by simp
  have a: "find ?Q remaining = find ?Q dataMarkers" if "filter ?Q pre = []"
  proof (cases "0 < level")
    case True
    then show ?thesis
      using on that by (simp add: find_filter)
  next
    case False
    then show ?thesis
      using off by simp
  qed
  have b: "find ?Q remaining =
             (if length (filter ?Q pre) < length (filter ?Q dataMarkers)
              then Some (filter ?Q dataMarkers ! length (filter ?Q pre)) else None)"
    if "0 < level"
    using on [OF that] by (simp add: find_filter drop_head)
  have A: "filter ?Q pre = [] \<longrightarrow>
        map_of (fst (matchMarkers level modelMarkers dataMarkers)) modelName =
          (case find ?Q dataMarkers of
             None \<Rightarrow> None
           | Some (dataName, datax) \<Rightarrow> Some (modelx, datax))"
    using p a by simp
  have B: "0 < level \<longrightarrow>
        map_of (fst (matchMarkers level modelMarkers dataMarkers)) modelName =
          (let earlier = filter ?Q pre; candidates = filter ?Q dataMarkers
           in if length earlier < length candidates
              then Some (modelx, snd (candidates ! length earlier))
              else None)"
    using p b by (auto simp: Let_def split: prod.splits)
  show ?thesis
    using A B by (rule conjI)
qed

theorem normalised_name_matching_witness:
  "distinct (map fst [(''Apex'', [0, 0, 0 :: real]), (''APEX'', [1, 0, 0])]) \<and>
   (0::int) < 1 \<and>
   map_of (fst (matchMarkers 1 [(''Apex'', [0, 0, 0]), (''APEX'', [1, 0, 0])]
                  [('' apex '', [5, 5, 5]), (''Base'', [7, 7, 7]), (''apex'', [6, 6, 6])])) ''APEX''
     = Some ([1, 0, 0], [6, 6, 6]) \<and>
   map_of (fst (matchMarkers 1 [(''Apex'', [0, 0, 0]), (''APEX'', [1, 0, 0])]
                  [('' apex '', [5, 5, 5]), (''Base'', [7, 7, 7]), (''apex'', [6, 6, 6])])) ''Apex''
     = Some ([0, 0, 0], [5, 5, 5])"
proof -
  let ?M = "[(''Apex'', [0, 0, 0 :: real]), (''APEX'', [1, 0, 0])]"
  let ?D = "[('' apex '', [5, 5, 5 :: real]), (''Base'', [7, 7, 7]), (''apex'', [6, 6, 6])]"
  have h1: "distinct (map fst ?M)" by simp
  have h2: "?M = [(''Apex'', [0, 0, 0])] @ (''APEX'', [1, 0, 0]) # []" by simp
  have h3: "?M = [] @ (''Apex'', [0, 0, 0]) # [(''APEX'', [1, 0, 0])]" by simp
  have l: "(0::int) < 1" by simp
  have e: "filter (\<lambda>(n, x). casefold (strip n) = casefold (strip ''APEX''))
             [(''Apex'', [0, 0, 0 :: real])] = [(''Apex'', [0, 0, 0])]"
    by code_simp
  have c: "filter (\<lambda>(n, x). casefold (strip n) = casefold (strip ''APEX'')) ?D
             = [('' apex '', [5, 5, 5]), (''apex'', [6, 6, 6])]"
    by code_simp
  have f: "find (\<lambda>(dataName, datax). casefold (strip dataName) = casefold (strip ''Apex'')) ?D
             = Some ('' apex '', [5, 5, 5])"
    by code_simp
  have "map_of (fst (matchMarkers 1 ?M ?D)) ''APEX'' =
          (let earlier = filter (\<lambda>(n, x). casefold (strip n) = casefold (strip ''APEX''))
                           [(''Apex'', [0, 0, 0 :: real])];
               candidates = filter (\<lambda>(n, x). casefold (strip n) = casefold (strip ''APEX'')) ?D
           in if length earlier < length candidates
              then Some ([1, 0, 0], snd (candidates ! length earlier))
              else None)"
    using normalised_name_matching [OF h1 h2, of 1 ?D] l by (elim conjE) simp
  then have second: "map_of (fst (matchMarkers 1 ?M ?D)) ''APEX'' = Some ([1, 0, 0], [6, 6, 6])"
    unfolding e c by simp
  have "map_of (fst (matchMarkers 1 ?M ?D)) ''Apex'' =
          (case find (\<lambda>(dataName, datax). casefold (strip dataName) = casefold (strip ''Apex''))
                  ?D of
             None \<Rightarrow> None
           | Some (dataName, datax) \<Rightarrow> Some ([0, 0, 0], datax))"
    using normalised_name_matching [OF h1 h3, of 1 ?D] by (elim conjE) simp
  then have first: "map_of (fst (matchMarkers 1 ?M ?D)) ''Apex'' = Some ([0, 0, 0], [5, 5, 5])"
    unfolding f by simp
  show ?thesis
    using h1 l second first by (intro conjI)
qed

lemma str_digit: "n < 10 \<Longrightarrow> str n = [char_of (48 + n)]"
  by (simp add: str.simps)

text \<open>
  Claim C3. With fewer than 3 entries in the marker map, \<open>_optimiseAlignment\<close> fails with
  the assertion whose message carries the number of entries, prints nothing and leaves
  the step as it was; and a \<open>run\<close> that aligns to markers and matches fewer than 3 fails
  with the same error, with the step and the fitter unchanged.
\<close>

theorem too_few_markers:
  assumes "length markerMap < 3"
  shows "optimiseAlignment fitter markerMap st =
           (Some (AssertionError (''Align:  Only '' @ [char_of (48 + length markerMap)] @
                                   '' markers - need at least 3'')), st, []) \<and>
         (modelCoordinatesField fitter = Some C \<and> py_truthy (alignMarkers st) \<and>
          markerGroup fitter = Some g \<and> modelMarkerCentres fitter = Some ms \<and>
          dataMarkerCentres fitter = Some ds \<and>
          fst (matchMarkers (diagnosticLevel fitter) ms ds) = markerMap \<longrightarrow>
            fst (run fitter st) =
              Some (AssertionError (''Align:  Only '' @ [char_of (48 + length markerMap)] @
                                     '' markers - need at least 3'')) \<and>
            fst (snd (run fitter st)) = st \<and>
            fst (snd (snd (run fitter st))) = fitter)"
proof -
  have s: "str (length markerMap) = [char_of (48 + length markerMap)]"
    using assms by (simp add: str_digit)
  have o: "optimiseAlignment fitter markerMap st =
           (Some (AssertionError (''Align:  Only '' @ [char_of (48 + length markerMap)] @
                                   '' markers - need at least 3'')), st, [])"
    using assms by (simp add: optimiseAlignment_def s)
  have r: "fst (run fitter st) =
              Some (AssertionError (''Align:  Only '' @ [char_of (48 + length markerMap)] @
                                     '' markers - need at least 3'')) \<and>
            fst (snd (run fitter st)) = st \<and>
            fst (snd (snd (run fitter st))) = fitter"
    if h: "modelCoordinatesField fitter = Some C" "py_truthy (alignMarkers st)"
      "markerGroup fitter = Some g" "modelMarkerCentres fitter = Some ms"
      "dataMarkerCentres fitter = Some ds"
      "fst (matchMarkers (diagnosticLevel fitter) ms ds) = markerMap"
  proof -
    obtain out where m: "matchMarkers (diagnosticLevel fitter) ms ds = (markerMap, out)"
      using h(6) by (cases "matchMarkers (diagnosticLevel fitter) ms ds") simp
    have "doAlignMarkers fitter st =
           (Some (AssertionError (''Align:  Only '' @ [char_of (48 + length markerMap)] @
                                   '' markers - need at least 3'')), st, out)"
      using h(3) h(4) h(5) by (simp add: doAlignMarkers_def m o)
    then show ?thesis
      using h(1) h(2) by (simp add: run_def)
  qed
  show ?thesis using o r by blast
qed


theorem too_few_markers_witness:
  "length [(''Apex'', [0, 0, 0 :: real], [5, 5, 5 :: real]), (''Base'', [1, 0, 0], [6, 5, 5])] < 3 \<and>
   optimiseAlignment
      \<lparr> modelCoordinatesField = None, markerGroup = None, modelMarkerCentres = None,
        dataMarkerCentres = None, dataScale = 1, diagnosticLevel = 0,
        optimise = (\<lambda>m d. \<lparr> assignedOK = True, objectiveValid = True,
                              optimiseResult = 1, solutionReport = [],
                              rotationEvaluated = (1, [0, 0, 0]),
                              scaleEvaluated = (1, 1),
                              translationEvaluated = (1, [0, 0, 0]) \<rparr>),
        assign = (\<lambda>F. 1) \<rparr>
      [(''Apex'', [0, 0, 0], [5, 5, 5]), (''Base'', [1, 0, 0], [6, 5, 5])]
      (init\<lparr>scale := PyFloat 2\<rparr>)
     = (Some (AssertionError ''Align:  Only 2 markers - need at least 3''),
        init\<lparr>scale := PyFloat 2\<rparr>, [])"
proof -
  let ?mm = "[(''Apex'', [0, 0, 0 :: real], [5, 5, 5 :: real]), (''Base'', [1, 0, 0], [6, 5, 5])]"
  have h: "length ?mm < 3" by simp
  have c: "[char_of (48 + length ?mm)] = ''2''" by code_simp
  show ?thesis
    using too_few_markers [OF h] h unfolding c by simp
qed

end
